theory Spec2Isabelle
  imports Complex_Main
begin

section \<open>Python numbers\<close>

text \<open>
  The module \<^verbatim>\<open>duals.py\<close> defines the class \<^verbatim>\<open>Dual\<close>, whose instances carry
  two numbers, and overloads the arithmetic operators on it. The arithmetic on the
  numbers themselves is Python's own. A number is an \<^verbatim>\<open>int\<close> (unbounded), a finite
  \<^verbatim>\<open>float\<close> (the real number it stands for, zero without a sign), a float that is
  not finite, or a complex number.
\<close>

datatype nonfinite = PosInf | NegInf | NaN

typedecl pycomplex

datatype num = PyInt int | PyFloat real | PyNonFinite nonfinite | PyComplex pycomplex

text \<open>
  The binary operators \<^verbatim>\<open>+\<close>, \<^verbatim>\<open>-\<close>, \<^verbatim>\<open>*\<close>, \<^verbatim>\<open>/\<close> and \<^verbatim>\<open>**\<close>, and the
  exceptions that the arithmetic, the operator dispatch and the evaluator raise.
\<close>

datatype operator = Add | Sub | Mult | Div | Power

datatype exn = ZeroDivisionError | OverflowError | TypeError | AttributeError

definition bind_exn :: "exn + 'a \<Rightarrow> ('a \<Rightarrow> exn + 'b) \<Rightarrow> exn + 'b" where
  "bind_exn m f = (case m of Inl e \<Rightarrow> Inl e | Inr v \<Rightarrow> f v)"

text \<open>
  The finite values of a \<^verbatim>\<open>float\<close> (IEEE 754 binary64): an integer of less than 53
  bits times a power of two, from the smallest subnormal up.
\<close>

definition is_double :: "real \<Rightarrow> bool" where
  "is_double x =
     (\<exists>m e. \<bar>m\<bar> < 2 ^ 53 \<and> - 1074 \<le> e \<and> e \<le> 971 \<and> x = real_of_int m * 2 powi e)"

text \<open>
  An operand as a finite float, where the conversion is exact. \<open>PyFloat r\<close> stands
  for a float only when \<open>r\<close> is one; any other \<open>r\<close> is left to the interpreter.
\<close>

fun to_double :: "num \<Rightarrow> real option" where
  "to_double (PyInt i) = (if is_double (of_int i) then Some (of_int i) else None)"
| "to_double (PyFloat r) = (if is_double r then Some r else None)"
| "to_double (PyNonFinite _) = None"
| "to_double (PyComplex _) = None"

text \<open>
  The model computes an operation itself where Python's result is exact: on two
  integers, and on finite operands whose exact result is a float (a correctly rounded
  operation returns such a result as it is). Everywhere else the result is a rounded
  float, an infinity, a NaN, a complex number or an \<^verbatim>\<open>OverflowError\<close>, and the model
  asks the interpreter for it. The interpreter is a parameter of every definition;
  nothing is assumed of it but that \<^verbatim>\<open>+\<close> and \<^verbatim>\<open>*\<close> on numbers do not depend on the
  order of their operands, which is why it takes these as a set.
\<close>

record interp =
  commutative :: "operator \<Rightarrow> num set \<Rightarrow> exn + num"
  ordered :: "operator \<Rightarrow> num \<Rightarrow> num \<Rightarrow> exn + num"

definition inexact :: "interp \<Rightarrow> operator \<Rightarrow> num \<Rightarrow> num \<Rightarrow> exn + num" where
  "inexact ip opr a b =
     (if opr = Add \<or> opr = Mult then commutative ip opr {a, b} else ordered ip opr a b)"

definition exact_or :: "interp \<Rightarrow> operator \<Rightarrow> num \<Rightarrow> num \<Rightarrow> real \<Rightarrow> exn + num" where
  "exact_or ip opr a b r = (if is_double r then Inr (PyFloat r) else inexact ip opr a b)"

definition is_integer :: "real \<Rightarrow> bool" where
  "is_integer y = (of_int \<lfloor>y\<rfloor> = y)"

definition real_power :: "real \<Rightarrow> real \<Rightarrow> real" where
  "real_power x y = (if is_integer y then x powi \<lfloor>y\<rfloor> else x powr y)"

text \<open>
  Float arithmetic, after the conversion of an integer operand. \<^verbatim>\<open>/\<close> raises
  \<^verbatim>\<open>ZeroDivisionError\<close> on a zero divisor and \<^verbatim>\<open>**\<close> on zero to a negative power.
  A negative base with a fractional exponent gives a complex number, which is the
  interpreter's to return. The platform's \<^verbatim>\<open>pow\<close> is taken to return a power that
  is a float as it stands, as the four basic operations do.
\<close>

definition float_arith :: "interp \<Rightarrow> operator \<Rightarrow> num \<Rightarrow> num \<Rightarrow> exn + num" where
  "float_arith ip opr a b =
     (case (to_double a, to_double b) of
        (Some x, Some y) \<Rightarrow>
          (case opr of
             Add \<Rightarrow> exact_or ip opr a b (x + y)
           | Sub \<Rightarrow> exact_or ip opr a b (x - y)
           | Mult \<Rightarrow> exact_or ip opr a b (x * y)
           | Div \<Rightarrow>
               if y = 0 then Inl ZeroDivisionError else exact_or ip opr a b (x / y)
           | Power \<Rightarrow>
               if x = 0 \<and> y < 0 then Inl ZeroDivisionError
               else if x < 0 \<and> \<not> is_integer y then inexact ip opr a b
               else exact_or ip opr a b (real_power x y))
      | _ \<Rightarrow> inexact ip opr a b)"

text \<open>
  Arithmetic on two numbers. Two integers add, subtract and multiply exactly, and
  raise to a non-negative power exactly; their quotient is a float, the exact one when
  it is a float; everything else is float arithmetic.
\<close>

fun num_arith :: "interp \<Rightarrow> operator \<Rightarrow> num \<Rightarrow> num \<Rightarrow> exn + num" where
  "num_arith ip Add (PyInt a) (PyInt b) = Inr (PyInt (a + b))"
| "num_arith ip Sub (PyInt a) (PyInt b) = Inr (PyInt (a - b))"
| "num_arith ip Mult (PyInt a) (PyInt b) = Inr (PyInt (a * b))"
| "num_arith ip Div (PyInt a) (PyInt b) =
     (if b = 0 then Inl ZeroDivisionError
      else exact_or ip Div (PyInt a) (PyInt b) (of_int a / of_int b))"
| "num_arith ip Power (PyInt a) (PyInt b) =
     (if 0 \<le> b then Inr (PyInt (a ^ nat b)) else float_arith ip Power (PyInt a) (PyInt b))"
| "num_arith ip opr a b = float_arith ip opr a b"

section \<open>The class Dual\<close>

record Dual =
  real_part :: num
  dual_part :: num

text \<open>
  The values the operator methods can receive and return: numbers, instances of
  \<^verbatim>\<open>Dual\<close>, an instance of \<^verbatim>\<open>NotImplementedError\<close> (with its message) and an
  instance of any other class, given by the name of its type (\<^verbatim>\<open>None\<close> is
  \<open>PObj ''NoneType''\<close>); such an object has no arithmetic methods of its own.
\<close>

datatype pyval =
    PNum num
  | PDual Dual
  | PErr string
  | PObj string

text \<open>\<^verbatim>\<open>isinstance(other, Dual)\<close> and \<^verbatim>\<open>isinstance(other, (int, float))\<close>.\<close>

fun as_dual :: "pyval \<Rightarrow> Dual option" where
  "as_dual (PDual d) = Some d"
| "as_dual _ = None"

fun scalar :: "pyval \<Rightarrow> num option" where
  "scalar (PNum (PyComplex _)) = None"
| "scalar (PNum n) = Some n"
| "scalar _ = None"

text \<open>\<^verbatim>\<open>type(other).__name__\<close>.\<close>

fun type_name :: "pyval \<Rightarrow> string" where
  "type_name (PNum (PyInt _)) = ''int''"
| "type_name (PNum (PyComplex _)) = ''complex''"
| "type_name (PNum _) = ''float''"
| "type_name (PDual _) = ''Dual''"
| "type_name (PErr _) = ''NotImplementedError''"
| "type_name (PObj n) = n"

definition unsupported :: "pyval \<Rightarrow> string \<Rightarrow> exn + pyval" where
  "unsupported other what = Inr (PErr (type_name other @ what))"

definition Dual_add :: "interp \<Rightarrow> Dual \<Rightarrow> pyval \<Rightarrow> exn + pyval" where
  "Dual_add ip self other =
     (case as_dual other of
        Some d \<Rightarrow>
          bind_exn (num_arith ip Add (real_part self) (real_part d)) (\<lambda>r.
          bind_exn (num_arith ip Add (dual_part self) (dual_part d)) (\<lambda>q.
          Inr (PDual \<lparr>real_part = r, dual_part = q\<rparr>)))
      | None \<Rightarrow>
         (case scalar other of
            Some c \<Rightarrow>
              bind_exn (num_arith ip Add (real_part self) c) (\<lambda>r.
              Inr (PDual \<lparr>real_part = r, dual_part = dual_part self\<rparr>))
          | None \<Rightarrow> unsupported other '' type not defined for addition with duals''))"

definition Dual_radd :: "interp \<Rightarrow> Dual \<Rightarrow> pyval \<Rightarrow> exn + pyval" where
  "Dual_radd = Dual_add"

definition Dual_sub :: "interp \<Rightarrow> Dual \<Rightarrow> pyval \<Rightarrow> exn + pyval" where
  "Dual_sub ip self other =
     (case as_dual other of
        Some d \<Rightarrow>
          bind_exn (num_arith ip Sub (real_part self) (real_part d)) (\<lambda>r.
          bind_exn (num_arith ip Sub (dual_part self) (dual_part d)) (\<lambda>q.
          Inr (PDual \<lparr>real_part = r, dual_part = q\<rparr>)))
      | None \<Rightarrow>
         (case scalar other of
            Some c \<Rightarrow>
              bind_exn (num_arith ip Sub (real_part self) c) (\<lambda>r.
              Inr (PDual \<lparr>real_part = r, dual_part = dual_part self\<rparr>))
          | None \<Rightarrow> unsupported other '' type not defined for subtraction with duals''))"

definition Dual_rsub :: "interp \<Rightarrow> Dual \<Rightarrow> pyval \<Rightarrow> exn + pyval" where
  "Dual_rsub = Dual_sub"

definition Dual_mul :: "interp \<Rightarrow> Dual \<Rightarrow> pyval \<Rightarrow> exn + pyval" where
  "Dual_mul ip self other =
     (case as_dual other of
        Some d \<Rightarrow>
          bind_exn (num_arith ip Mult (real_part self) (real_part d)) (\<lambda>r.
          bind_exn (num_arith ip Add (dual_part self) (dual_part d)) (\<lambda>q.
          Inr (PDual \<lparr>real_part = r, dual_part = q\<rparr>)))
      | None \<Rightarrow>
         (case scalar other of
            Some c \<Rightarrow>
              bind_exn (num_arith ip Mult (real_part self) c) (\<lambda>r.
              bind_exn (num_arith ip Mult (dual_part self) c) (\<lambda>q.
              Inr (PDual \<lparr>real_part = r, dual_part = q\<rparr>)))
          | None \<Rightarrow> unsupported other '' type not defined for multiplciation with duals''))"

definition Dual_rmul :: "interp \<Rightarrow> Dual \<Rightarrow> pyval \<Rightarrow> exn + pyval" where
  "Dual_rmul = Dual_mul"

definition Dual_truediv :: "interp \<Rightarrow> Dual \<Rightarrow> pyval \<Rightarrow> exn + pyval" where
  "Dual_truediv ip self other =
     (case as_dual other of
        Some d \<Rightarrow>
          bind_exn (num_arith ip Mult (dual_part self) (real_part d)) (\<lambda>left.
          bind_exn (num_arith ip Mult (dual_part d) (real_part self)) (\<lambda>right.
          bind_exn (num_arith ip Sub left right) (\<lambda>dual_numerator.
          bind_exn (num_arith ip Power (real_part d) (PyInt 2)) (\<lambda>dual_denominator.
          bind_exn (num_arith ip Div (real_part self) (real_part d)) (\<lambda>r.
          bind_exn (num_arith ip Div dual_numerator dual_denominator) (\<lambda>q.
          Inr (PDual \<lparr>real_part = r, dual_part = q\<rparr>)))))))
      | None \<Rightarrow>
         (case scalar other of
            Some c \<Rightarrow>
              bind_exn (num_arith ip Div (real_part self) c) (\<lambda>r.
              Inr (PDual \<lparr>real_part = r, dual_part = dual_part self\<rparr>))
          | None \<Rightarrow> unsupported other '' type not defined for division with duals''))"

definition Dual_rdiv :: "interp \<Rightarrow> Dual \<Rightarrow> pyval \<Rightarrow> exn + pyval" where
  "Dual_rdiv ip self other =
     (case as_dual other of
        Some d \<Rightarrow> Dual_truediv ip d (PDual self)
      | None \<Rightarrow>
         (case scalar other of
            Some c \<Rightarrow>
              bind_exn (num_arith ip Div c (real_part self)) (\<lambda>r.
              bind_exn (num_arith ip Div (PyInt 1) (dual_part self)) (\<lambda>q.
              Inr (PDual \<lparr>real_part = r, dual_part = q\<rparr>)))
          | None \<Rightarrow> unsupported other '' type not defined for division with duals''))"

definition Dual_pow :: "interp \<Rightarrow> Dual \<Rightarrow> pyval \<Rightarrow> exn + pyval" where
  "Dual_pow ip self other =
     (case scalar other of
        Some n \<Rightarrow>
          bind_exn (num_arith ip Power (real_part self) n) (\<lambda>r.
          bind_exn (num_arith ip Mult n (dual_part self)) (\<lambda>scaled.
          bind_exn (num_arith ip Sub n (PyInt 1)) (\<lambda>lower.
          bind_exn (num_arith ip Power (real_part self) lower) (\<lambda>p.
          bind_exn (num_arith ip Mult scaled p) (\<lambda>q.
          Inr (PDual \<lparr>real_part = r, dual_part = q\<rparr>))))))
      | None \<Rightarrow> unsupported other '' not defined for power with duals. Only int/float'')"

section \<open>Operator dispatch and the evaluator\<close>

text \<open>
  The method tables of the class. Every operator has its forward method. The reflected
  methods the class defines are \<^verbatim>\<open>__radd__\<close>, \<^verbatim>\<open>__rsub__\<close> and \<^verbatim>\<open>__rmul__\<close>;
  it defines \<^verbatim>\<open>__rdiv__\<close>, a name that \<^verbatim>\<open>/\<close> does not look up (it looks up
  \<^verbatim>\<open>__rtruediv__\<close>), and no \<^verbatim>\<open>__rpow__\<close>.
\<close>

fun Dual_forward :: "operator \<Rightarrow> interp \<Rightarrow> Dual \<Rightarrow> pyval \<Rightarrow> exn + pyval" where
  "Dual_forward Add = Dual_add"
| "Dual_forward Sub = Dual_sub"
| "Dual_forward Mult = Dual_mul"
| "Dual_forward Div = Dual_truediv"
| "Dual_forward Power = Dual_pow"

fun Dual_reflected :: "operator \<Rightarrow> (interp \<Rightarrow> Dual \<Rightarrow> pyval \<Rightarrow> exn + pyval) option" where
  "Dual_reflected Add = Some Dual_radd"
| "Dual_reflected Sub = Some Dual_rsub"
| "Dual_reflected Mult = Some Dual_rmul"
| "Dual_reflected Div = None"
| "Dual_reflected Power = None"

text \<open>
  An operator on two values of which neither is a \<^verbatim>\<open>Dual\<close>: arithmetic on two
  numbers, and \<^verbatim>\<open>TypeError\<close> otherwise.
\<close>

fun num_binop :: "interp \<Rightarrow> operator \<Rightarrow> pyval \<Rightarrow> pyval \<Rightarrow> exn + pyval" where
  "num_binop ip opr (PNum a) (PNum b) = bind_exn (num_arith ip opr a b) (\<lambda>r. Inr (PNum r))"
| "num_binop ip opr a b = Inl TypeError"

text \<open>
  How Python evaluates \<^verbatim>\<open>a op b\<close>: a \<^verbatim>\<open>Dual\<close> on the left answers with its forward
  method. Otherwise the left operand's own method does not handle a \<^verbatim>\<open>Dual\<close> on the
  right, and Python calls the reflected method of the right operand, raising
  \<^verbatim>\<open>TypeError\<close> when the class has none. The methods of \<^verbatim>\<open>Dual\<close> never return
  \<^verbatim>\<open>NotImplemented\<close>, so whatever they return is the value of the expression.
\<close>

definition py_binop :: "interp \<Rightarrow> operator \<Rightarrow> pyval \<Rightarrow> pyval \<Rightarrow> exn + pyval" where
  "py_binop ip opr a b =
     (case as_dual a of
        Some d \<Rightarrow> Dual_forward opr ip d b
      | None \<Rightarrow>
         (case as_dual b of
            Some d \<Rightarrow>
              (case Dual_reflected opr of
                 Some m \<Rightarrow> m ip d a
               | None \<Rightarrow> Inl TypeError)
          | None \<Rightarrow> num_binop ip opr a b))"

text \<open>
  \<^verbatim>\<open>GeneralFunction\<close> keeps the text of an expression in the variable \<^verbatim>\<open>x\<close> and
  evaluates it with \<^verbatim>\<open>eval\<close>. The model keeps the expression as Python parses it:
  the name \<^verbatim>\<open>x\<close>, numeric constants and binary operators.
\<close>

datatype expr = Name | Constant num | BinOp expr operator expr

fun eval :: "interp \<Rightarrow> expr \<Rightarrow> pyval \<Rightarrow> exn + pyval" where
  "eval ip Name x = Inr x"
| "eval ip (Constant c) x = Inr (PNum c)"
| "eval ip (BinOp l opr r) x =
     (case eval ip l x of
        Inl e \<Rightarrow> Inl e
      | Inr a \<Rightarrow> (case eval ip r x of Inl e \<Rightarrow> Inl e | Inr b \<Rightarrow> py_binop ip opr a b))"

definition GeneralFunction_function :: "interp \<Rightarrow> expr \<Rightarrow> pyval \<Rightarrow> exn + pyval" where
  "GeneralFunction_function ip definition x = eval ip definition x"

text \<open>
  \<^verbatim>\<open>value_and_derivative_at_point\<close>, with the method \<^verbatim>\<open>function_to_eval.function\<close>
  as its first argument. Reading \<^verbatim>\<open>real_part\<close> of a result that is not a \<^verbatim>\<open>Dual\<close>
  raises \<^verbatim>\<open>AttributeError\<close>. The line it prints is not part of the model.
\<close>

definition value_and_derivative_at_point ::
  "(pyval \<Rightarrow> exn + pyval) \<Rightarrow> num \<Rightarrow> exn + (num \<times> num)" where
  "value_and_derivative_at_point function_to_eval point =
     bind_exn (function_to_eval (PDual \<lparr>real_part = point, dual_part = PyInt 1\<rparr>)) (\<lambda>result.
       case as_dual result of
         Some d \<Rightarrow> Inr (real_part d, dual_part d)
       | None \<Rightarrow> Inl AttributeError)"

text \<open>The expression of the module's demonstration, \<^verbatim>\<open>x**2 + 7*x - 18\<close>.\<close>

definition demo_definition :: expr where
  "demo_definition =
     BinOp (BinOp (BinOp Name Power (Constant (PyInt 2))) Add
                  (BinOp (Constant (PyInt 7)) Mult Name))
           Sub (Constant (PyInt 18))"

section \<open>Interpreters and numbers for concrete runs\<close>


definition underflows :: interp where
  "underflows =
     \<lparr>commutative = (\<lambda>opr s. Inr (PyFloat 0)), ordered = (\<lambda>opr a b. Inr (PyFloat 0))\<rparr>"





section \<open>Helper facts\<close>

lemma is_double_dyadic:
  "\<bar>m\<bar> < 2 ^ 53 \<Longrightarrow> - 1074 \<le> e \<Longrightarrow> e \<le> 971 \<Longrightarrow> is_double (real_of_int m * 2 powi e)"
  unfolding is_double_def by blast

lemma is_double_of_int: "\<bar>k\<bar> < 2 ^ 53 \<Longrightarrow> is_double (real_of_int k)"
  using is_double_dyadic [of k 0] by simp

lemma is_double_numeral [simp]: "numeral k < (2::int) ^ 53 \<Longrightarrow> is_double (numeral k)"
  using is_double_of_int [of "numeral k"] by simp

lemma is_double_zero [simp]: "is_double 0"
  using is_double_of_int [of 0] by simp

lemma is_double_one [simp]: "is_double 1"
  using is_double_of_int [of 1] by simp

lemma is_double_minus [simp]: "is_double (- x) = is_double x"
proof -
  have "is_double (- y)" if "is_double y" for y
  proof -
    from that obtain m e where "\<bar>m\<bar> < 2 ^ 53" "- 1074 \<le> e" "e \<le> 971" "y = real_of_int m * 2 powi e"
      unfolding is_double_def by blast
    then show ?thesis
      using is_double_dyadic [of "- m" e] by simp
  qed
  from this [of x] this [of "- x"] show ?thesis by auto
qed

lemma is_double_half: "is_double (1 / 2)"
  using is_double_dyadic [of 1 "- 1"] by (simp add: power_int_minus)

lemma is_double_quarter: "is_double (1 / 4)"
  using is_double_dyadic [of 1 "- 2"] by (simp add: power_int_minus)

lemma is_double_three_halves: "is_double (3 / 2)"
  using is_double_dyadic [of 3 "- 1"] by (simp add: power_int_minus)


















lemma num_arith_exact_add:
  "to_double a = Some x \<Longrightarrow> to_double b = Some y \<Longrightarrow> is_double (x + y) \<Longrightarrow>
     \<exists>c. num_arith ip Add a b = Inr c \<and> to_double c = Some (x + y)"
  by (cases a; cases b) (auto simp: float_arith_def exact_or_def split: if_splits)








section \<open>The dual-number algebra\<close>

text \<open>
  C1. The product of two dual numbers should have the product of the real parts as its
  real part and, by the product rule, \<open>X.real * Y.dual + Y.real * X.dual\<close> as its dual
  part. The method adds the two dual parts instead: \<^verbatim>\<open>Dual(4, 3) * Dual(5, 7)\<close> is
  \<^verbatim>\<open>Dual(20, 10)\<close>, where the product rule gives the dual part 43.
\<close>

theorem Dual_mul_sums_dual_parts:
  "py_binop ip Mult (PDual \<lparr>real_part = PyInt 4, dual_part = PyInt 3\<rparr>) (PDual \<lparr>real_part = PyInt 5, dual_part = PyInt 7\<rparr>) = Inr (PDual \<lparr>real_part = PyInt 20, dual_part = PyInt 10\<rparr>)
   \<and> (10::int) \<noteq> 4 * 7 + 5 * 3"
  by (simp add: py_binop_def Dual_mul_def bind_exn_def)

text \<open>
  C2. A scalar minus a dual number, \<open>c - X\<close>, should be \<open>Dual(c - X.real, - X.dual)\<close>
  and differ from \<open>X - c\<close>. The class takes its forward subtraction as the reflected
  one, so \<^verbatim>\<open>10 - Dual(4, 3)\<close> and \<^verbatim>\<open>Dual(4, 3) - 10\<close> are both
  \<^verbatim>\<open>Dual(-6, 3)\<close>, where the claim asks for \<^verbatim>\<open>Dual(6, -3)\<close>.
\<close>

theorem Dual_rsub_is_forward_sub:
  "py_binop ip Sub (PNum (PyInt 10)) (PDual \<lparr>real_part = PyInt 4, dual_part = PyInt 3\<rparr>) = Inr (PDual \<lparr>real_part = PyInt (- 6), dual_part = PyInt 3\<rparr>)
   \<and> py_binop ip Sub (PDual \<lparr>real_part = PyInt 4, dual_part = PyInt 3\<rparr>) (PNum (PyInt 10)) = Inr (PDual \<lparr>real_part = PyInt (- 6), dual_part = PyInt 3\<rparr>)"
  by (simp add: py_binop_def Dual_rsub_def Dual_sub_def bind_exn_def)

text \<open>
  C3. An operation with a scalar \<open>c\<close> should give what the same operation gives with
  \<open>Dual(c, 0)\<close>. Division by a scalar leaves the dual part undivided, and
  multiplication by a dual number adds the dual parts: \<^verbatim>\<open>Dual(4, 3) / 2\<close> is
  \<^verbatim>\<open>Dual(2.0, 3)\<close> and \<^verbatim>\<open>Dual(4, 3) / Dual(2, 0)\<close> is \<^verbatim>\<open>Dual(2.0, 1.5)\<close>, while
  \<^verbatim>\<open>Dual(4, 3) * 2\<close> is \<^verbatim>\<open>Dual(8, 6)\<close> and \<^verbatim>\<open>Dual(4, 3) * Dual(2, 0)\<close> is
  \<^verbatim>\<open>Dual(8, 3)\<close>.
\<close>

theorem scalar_operand_differs_from_promoted:
  "py_binop ip Div (PDual \<lparr>real_part = PyInt 4, dual_part = PyInt 3\<rparr>) (PNum (PyInt 2)) = Inr (PDual \<lparr>real_part = PyFloat 2, dual_part = PyInt 3\<rparr>)
   \<and> py_binop ip Div (PDual \<lparr>real_part = PyInt 4, dual_part = PyInt 3\<rparr>) (PDual \<lparr>real_part = PyInt 2, dual_part = PyInt 0\<rparr>) = Inr (PDual \<lparr>real_part = PyFloat 2, dual_part = PyFloat (3 / 2)\<rparr>)
   \<and> py_binop ip Mult (PDual \<lparr>real_part = PyInt 4, dual_part = PyInt 3\<rparr>) (PNum (PyInt 2)) = Inr (PDual \<lparr>real_part = PyInt 8, dual_part = PyInt 6\<rparr>)
   \<and> py_binop ip Mult (PDual \<lparr>real_part = PyInt 4, dual_part = PyInt 3\<rparr>) (PDual \<lparr>real_part = PyInt 2, dual_part = PyInt 0\<rparr>) = Inr (PDual \<lparr>real_part = PyInt 8, dual_part = PyInt 3\<rparr>)"
  by (simp add: py_binop_def Dual_truediv_def Dual_mul_def bind_exn_def exact_or_def
      is_double_three_halves)

text \<open>
  C4. A scalar divided by a dual number, \<open>c / X\<close>, should be the quotient of
  \<open>Dual(c, 0)\<close> by \<open>X\<close>, that is \<open>Dual(c / X.real, - c * X.dual / X.real\<^sup>2)\<close>. The
  operator finds no reflected method and raises \<^verbatim>\<open>TypeError\<close>; the method
  \<^verbatim>\<open>__rdiv__\<close>, called by its name, inverts the dual part:
  \<^verbatim>\<open>Dual(2, 4).__rdiv__(1)\<close> is \<^verbatim>\<open>Dual(0.5, 0.25)\<close>, where the quotient is
  \<^verbatim>\<open>Dual(0.5, -1.0)\<close>.
\<close>

theorem reflected_division_unsupported:
  "py_binop ip Div (PNum (PyInt 1)) (PDual \<lparr>real_part = PyInt 2, dual_part = PyInt 4\<rparr>) = Inl TypeError
   \<and> Dual_rdiv ip \<lparr>real_part = PyInt 2, dual_part = PyInt 4\<rparr> (PNum (PyInt 1)) = Inr (PDual \<lparr>real_part = PyFloat (1 / 2), dual_part = PyFloat (1 / 4)\<rparr>)
   \<and> Dual_truediv ip \<lparr>real_part = PyInt 1, dual_part = PyInt 0\<rparr> (PDual \<lparr>real_part = PyInt 2, dual_part = PyInt 4\<rparr>) = Inr (PDual \<lparr>real_part = PyFloat (1 / 2), dual_part = PyFloat (- 1)\<rparr>)"
  by (simp add: py_binop_def Dual_rdiv_def Dual_truediv_def bind_exn_def exact_or_def
      is_double_half is_double_quarter)

text \<open>
  C5. An operand that is neither a dual number nor a number, and a dual number as
  exponent, should make the operation raise. Every method returns an instance of
  \<^verbatim>\<open>NotImplementedError\<close> as its ordinary result instead: nothing is raised, and the
  caller goes on with the error object as a value.
\<close>

theorem unsupported_operand_is_returned:
  "py_binop ip Add (PDual \<lparr>real_part = PyInt 4, dual_part = PyInt 3\<rparr>) (PObj ''NoneType'') =
     Inr (PErr ''NoneType type not defined for addition with duals'')
   \<and> py_binop ip Sub (PDual \<lparr>real_part = PyInt 4, dual_part = PyInt 3\<rparr>) (PObj ''NoneType'') =
     Inr (PErr ''NoneType type not defined for subtraction with duals'')
   \<and> py_binop ip Mult (PDual \<lparr>real_part = PyInt 4, dual_part = PyInt 3\<rparr>) (PObj ''NoneType'') =
     Inr (PErr ''NoneType type not defined for multiplciation with duals'')
   \<and> py_binop ip Div (PDual \<lparr>real_part = PyInt 4, dual_part = PyInt 3\<rparr>) (PObj ''NoneType'') =
     Inr (PErr ''NoneType type not defined for division with duals'')
   \<and> py_binop ip Power (PDual \<lparr>real_part = PyInt 4, dual_part = PyInt 3\<rparr>) (PDual \<lparr>real_part = PyInt 2, dual_part = PyInt 0\<rparr>) =
     Inr (PErr ''Dual not defined for power with duals. Only int/float'')"
  by (simp add: py_binop_def Dual_add_def Dual_sub_def Dual_mul_def Dual_truediv_def
      Dual_pow_def unsupported_def)








section \<open>The derivative evaluator\<close>

text \<open>
  C8. The evaluator, on the polynomial \<^verbatim>\<open>x**2 + 7*x - 18\<close> at the point 7, returns
  the value 80 and the derivative 21.
\<close>

theorem demo_polynomial_at_seven:
  "value_and_derivative_at_point (GeneralFunction_function ip demo_definition) (PyInt 7)
     = Inr (PyInt 80, PyInt 21)"
  by (simp add: value_and_derivative_at_point_def GeneralFunction_function_def
      demo_definition_def py_binop_def Dual_pow_def Dual_rmul_def Dual_mul_def Dual_add_def
      Dual_sub_def bind_exn_def)

text \<open>
  C10. The evaluator applies the function to the seed \<open>Dual(x, 1)\<close> and returns the
  real part and the dual part of the result; on the identity function \<^verbatim>\<open>x\<close> it
  returns \<open>(p, 1)\<close> at every point \<open>p\<close>.
\<close>

theorem value_and_derivative_at_point_contract:
  "(f (PDual \<lparr>real_part = x, dual_part = PyInt 1\<rparr>) = Inr (PDual r) \<longrightarrow>
      value_and_derivative_at_point f x = Inr (real_part r, dual_part r))
   \<and> value_and_derivative_at_point (GeneralFunction_function ip Name) p = Inr (p, PyInt 1)"
  by (simp add: value_and_derivative_at_point_def GeneralFunction_function_def bind_exn_def)

theorem value_and_derivative_at_point_contract_witness:
  "GeneralFunction_function underflows (BinOp Name Add Name) (PDual \<lparr>real_part = PyInt 3, dual_part = PyInt 1\<rparr>) = Inr (PDual \<lparr>real_part = PyInt 6, dual_part = PyInt 2\<rparr>)
   \<and> value_and_derivative_at_point (GeneralFunction_function underflows (BinOp Name Add Name))
       (PyInt 3) = Inr (PyInt 6, PyInt 2)
   \<and> value_and_derivative_at_point (GeneralFunction_function underflows Name) (PyInt 5)
       = Inr (PyInt 5, PyInt 1)"
  using value_and_derivative_at_point_contract
    [of "GeneralFunction_function underflows (BinOp Name Add Name)" "PyInt 3" "\<lparr>real_part = PyInt 6, dual_part = PyInt 2\<rparr>"
        underflows "PyInt 5"]
  by (simp add: GeneralFunction_function_def py_binop_def Dual_add_def bind_exn_def)

end
